theory Spec2Isabelle
  imports Main "HOL-Library.Word"
begin

unbundle bit_operations_syntax

section \<open>The CCS811 driver of \<^verbatim>\<open>src/main.c\<close>\<close>

text \<open>
  The program talks to a CCS811 air-quality sensor over I2C, boots it into the
  one-second measurement mode and then, on every data-ready interrupt, reads the
  algorithm result and drives two LEDs from it. The embedding follows \<^verbatim>\<open>main.c\<close>
  function by function. The emlib calls (\<^verbatim>\<open>I2CSPM_Transfer\<close>, \<^verbatim>\<open>I2C_TransferInit\<close>,
  \<^verbatim>\<open>I2C_Transfer\<close>) are the environment: their results are parameters of the model.
\<close>

subsection \<open>Constants\<close>

type_synonym u8 = "8 word"
type_synonym u16 = "16 word"
type_synonym u32 = "32 word"

definition I2C_ADDRESS :: u16 where
  "I2C_ADDRESS = 0xB6"

definition CCS811_ADDR_STATUS :: u8 where
  "CCS811_ADDR_STATUS = 0x00"

definition CCS811_ADDR_MEASURE_MODE :: u8 where
  "CCS811_ADDR_MEASURE_MODE = 0x01"

definition CCS811_ADDR_ALG_RESULT_DATA :: u8 where
  "CCS811_ADDR_ALG_RESULT_DATA = 0x02"

definition CCS811_ADDR_THRESHOLDS :: u8 where
  "CCS811_ADDR_THRESHOLDS = 0x10"

definition CCS811_ADDR_HW_ID :: u8 where
  "CCS811_ADDR_HW_ID = 0x20"

definition CCS811_ADDR_ERR_ID :: u8 where
  "CCS811_ADDR_ERR_ID = 0xE0"

definition CCS811_ADDR_FW_VERIFY :: u8 where
  "CCS811_ADDR_FW_VERIFY = 0xF3"

definition CCS811_ADDR_APP_START :: u8 where
  "CCS811_ADDR_APP_START = 0xF4"

definition CCS811_MEASURE_MODE_DRIVE_MODE_SHIFT :: nat where
  "CCS811_MEASURE_MODE_DRIVE_MODE_SHIFT = 4"

definition CCS811_MEASURE_MODE_DRIVE_MODE_IDLE :: u8 where
  "CCS811_MEASURE_MODE_DRIVE_MODE_IDLE = 0x00"

definition CCS811_MEASURE_MODE_DRIVE_MODE_1SEC :: u8 where
  "CCS811_MEASURE_MODE_DRIVE_MODE_1SEC = 0x10"

definition CCS811_MEASURE_MODE_DRIVE_MODE_10SEC :: u8 where
  "CCS811_MEASURE_MODE_DRIVE_MODE_10SEC = 0x20"

definition CCS811_MEASURE_MODE_DRIVE_MODE_60SEC :: u8 where
  "CCS811_MEASURE_MODE_DRIVE_MODE_60SEC = 0x30"

definition CCS811_MEASURE_MODE_DRIVE_MODE_RAW :: u8 where
  "CCS811_MEASURE_MODE_DRIVE_MODE_RAW = 0x40"

definition CCS811_MEASURE_MODE_INTERRUPT :: u8 where
  "CCS811_MEASURE_MODE_INTERRUPT = 0x08"

definition CCS811_MEASURE_MODE_THRESH :: u8 where
  "CCS811_MEASURE_MODE_THRESH = 0x04"

text \<open>\<^verbatim>\<open>uint8_t treshData[] = {0x03,0x84, 0x05, 0xDC};\<close>\<close>

definition treshData :: "u8 list" where
  "treshData = [0x03, 0x84, 0x05, 0xDC]"

text \<open>
  \<^verbatim>\<open>sizeof(data)\<close> for \<^verbatim>\<open>uint8_t* data\<close>: the size of a pointer. The target is an EFM32
  (32-bit Cortex-M, \<^verbatim>\<open>em_device.h\<close>), where a pointer has four bytes.
\<close>

definition sizeof_uint8_ptr :: nat where
  "sizeof_uint8_ptr = 4"

subsection \<open>The transfer descriptor and the bus\<close>

text \<open>
  Modelled from the spec: \<^verbatim>\<open>em_i2c.h\<close> is not among the sources, so the enumeration
  \<^verbatim>\<open>I2C_TransferReturn_TypeDef\<close> is taken as the two values the code names and the
  single failure kind the spec gives the transport.
\<close>

datatype I2C_TransferReturn = i2cTransferInProgress | i2cTransferDone | i2cTransferFailed

datatype I2C_Flag = I2C_FLAG_WRITE | I2C_FLAG_WRITE_WRITE | I2C_FLAG_WRITE_READ

text \<open>
  \<^verbatim>\<open>I2C_TransferSeq_TypeDef\<close>. A buffer is the bytes its \<^verbatim>\<open>data\<close> pointer points to at
  the call, with its \<^verbatim>\<open>len\<close>. \<^verbatim>\<open>writeNoData\<close> leaves \<^verbatim>\<open>buf[1]\<close> unset: \<open>None\<close>.
\<close>

record I2C_TransferSeq =
  addr :: u16
  flags :: I2C_Flag
  buf0 :: "u8 list \<times> nat"
  buf1 :: "(u8 list \<times> nat) option"

text \<open>
  The environment. The \<open>k\<close>-th transfer the program starts (counted from 0) gets:
  from \<^verbatim>\<open>I2CSPM_Transfer\<close> its return value and the bytes the peripheral stored in the
  read buffer before returning; from \<^verbatim>\<open>I2C_TransferInit\<close> its return value; from the
  \<open>j\<close>-th call of \<^verbatim>\<open>I2C_Transfer\<close> after that its return value.
\<close>

record bus =
  I2CSPM_Transfer :: "nat \<Rightarrow> I2C_TransferReturn \<times> u8 list"
  I2C_TransferInit :: "nat \<Rightarrow> I2C_TransferReturn"
  I2C_Transfer :: "nat \<Rightarrow> nat \<Rightarrow> I2C_TransferReturn"

subsection \<open>Program state\<close>

text \<open>
  The globals \<^verbatim>\<open>dataAvailable\<close> and \<^verbatim>\<open>msTicks\<close>, the locals \<^verbatim>\<open>data[1]\<close> and
  \<^verbatim>\<open>algresultData[2]\<close> of \<^verbatim>\<open>main\<close> (both uninitialised in the source, so their first
  contents are whatever the initial state holds), the NVIC enable bit of the two GPIO
  interrupts, the last argument of \<^verbatim>\<open>BSP_LedsSet\<close>, and the transfers started so far.
\<close>

record state =
  dataAvailable :: bool
  msTicks :: u32
  data :: "u8 list"
  algresultData :: "u8 list"
  irqEnabled :: bool
  leds :: u32
  xfers :: "I2C_TransferSeq list"

definition disableSensorInterrupts :: "state \<Rightarrow> state" where
  "disableSensorInterrupts s = s\<lparr>irqEnabled := False\<rparr>"

definition enableSensorInterrupts :: "state \<Rightarrow> state" where
  "enableSensorInterrupts s = s\<lparr>irqEnabled := True\<rparr>"

definition BSP_LedsSet :: "u32 \<Rightarrow> state \<Rightarrow> state" where
  "BSP_LedsSet v s = s\<lparr>leds := v\<rparr>"

definition GPIO_EVEN_IRQHandler :: "state \<Rightarrow> state" where
  "GPIO_EVEN_IRQHandler s = s\<lparr>dataAvailable := True\<rparr>"

definition GPIO_ODD_IRQHandler :: "state \<Rightarrow> state" where
  "GPIO_ODD_IRQHandler s = s\<lparr>dataAvailable := True\<rparr>"

definition SysTick_Handler :: "state \<Rightarrow> state" where
  "SysTick_Handler s = s\<lparr>msTicks := msTicks s + 1\<rparr>"

text \<open>
  \<^verbatim>\<open>Delay\<close> spins on \<^verbatim>\<open>(msTicks - curTicks) < dlyTicks\<close> while \<^verbatim>\<open>SysTick_Handler\<close>
  counts; one turn of the loop below is one tick.
\<close>

function Delay_wait :: "u32 \<Rightarrow> u32 \<Rightarrow> state \<Rightarrow> state" where
  "Delay_wait curTicks dlyTicks s =
     (if msTicks s - curTicks < dlyTicks
      then Delay_wait curTicks dlyTicks (SysTick_Handler s)
      else s)"
  by pat_completeness auto
termination
proof (relation "measure (\<lambda>(c, d, s). unat d - unat (msTicks s - c))")
  show "wf (measure (\<lambda>(c, d, s). unat d - unat (msTicks s - c)))"
    by simp
next
  fix curTicks dlyTicks :: u32 and s :: state
  assume a: "msTicks s - curTicks < dlyTicks"
  define x where "x = msTicks s - curTicks"
  have lt: "unat x < unat dlyTicks"
    using a by (simp add: x_def word_less_nat_alt)
  have "unat dlyTicks < 2 ^ 32"
    using unsigned_less [of dlyTicks, where 'a = nat] by simp
  then have "unat x + 1 < 2 ^ 32"
    using lt by simp
  then have "unat (x + 1) = unat x + 1"
    by (simp add: unat_word_ariths)
  moreover have "msTicks (SysTick_Handler s) - curTicks = x + 1"
    by (simp add: SysTick_Handler_def x_def)
  ultimately have "unat (msTicks (SysTick_Handler s) - curTicks) = unat x + 1"
    by (simp only:)
  then have "unat dlyTicks - unat (msTicks (SysTick_Handler s) - curTicks)
      < unat dlyTicks - unat (msTicks s - curTicks)"
    using lt unfolding x_def by linarith
  then show "((curTicks, dlyTicks, SysTick_Handler s), (curTicks, dlyTicks, s))
      \<in> measure (\<lambda>(c, d, s). unat d - unat (msTicks s - c))"
    by simp
qed

definition Delay :: "u32 \<Rightarrow> state \<Rightarrow> state" where
  "Delay dlyTicks s = Delay_wait (msTicks s) dlyTicks s"

subsection \<open>Register access\<close>

definition writeRegister_seq :: "u8 \<Rightarrow> u8 \<Rightarrow> I2C_TransferSeq" where
  "writeRegister_seq id' data' =
     \<lparr>addr = I2C_ADDRESS, flags = I2C_FLAG_WRITE_WRITE,
      buf0 = ([id'], 1), buf1 = Some ([data'], 1)\<rparr>"

definition writeRegister :: "bus \<Rightarrow> u8 \<Rightarrow> u8 \<Rightarrow> state \<Rightarrow> u8 \<times> state" where
  "writeRegister b id' data' s =
     (let i2cTransfer = writeRegister_seq id' data';
          result = fst (I2CSPM_Transfer b (length (xfers s)));
          s' = s\<lparr>xfers := xfers s @ [i2cTransfer]\<rparr>
      in if result \<noteq> i2cTransferDone then (1, s') else (0, s'))"

text \<open>
  \<^verbatim>\<open>writeMailbox\<close> takes only the pointer; \<open>data'\<close> is the array it points to. The
  length put in the descriptor is \<^verbatim>\<open>sizeof(data)\<close>.
\<close>

definition writeMailbox_seq :: "u8 \<Rightarrow> u8 list \<Rightarrow> I2C_TransferSeq" where
  "writeMailbox_seq id' data' =
     \<lparr>addr = I2C_ADDRESS, flags = I2C_FLAG_WRITE_WRITE,
      buf0 = ([id'], 1), buf1 = Some (data', sizeof_uint8_ptr)\<rparr>"

definition writeMailbox :: "bus \<Rightarrow> u8 \<Rightarrow> u8 list \<Rightarrow> state \<Rightarrow> u8 \<times> state" where
  "writeMailbox b id' data' s =
     (let i2cTransfer = writeMailbox_seq id' data';
          result = fst (I2CSPM_Transfer b (length (xfers s)));
          s' = s\<lparr>xfers := xfers s @ [i2cTransfer]\<rparr>
      in if result \<noteq> i2cTransferDone then (1, s') else (0, s'))"

text \<open>
  The polling loop of \<^verbatim>\<open>writeNoData\<close>: \<^verbatim>\<open>while (result == i2cTransferInProgress)
  result = I2C_Transfer(I2C0);\<close>. It has no bound, so it is a partial function: \<open>None\<close>
  is the loop that never leaves.
\<close>

partial_function (option) writeNoData_poll ::
    "(nat \<Rightarrow> I2C_TransferReturn) \<Rightarrow> nat \<Rightarrow> I2C_TransferReturn \<Rightarrow> I2C_TransferReturn option" where
  "writeNoData_poll transfer j result =
     (if result = i2cTransferInProgress
      then writeNoData_poll transfer (Suc j) (transfer j)
      else Some result)"

definition writeNoData_seq :: "u8 \<Rightarrow> I2C_TransferSeq" where
  "writeNoData_seq id' =
     \<lparr>addr = I2C_ADDRESS, flags = I2C_FLAG_WRITE, buf0 = ([id'], 1), buf1 = None\<rparr>"

text \<open>\<^verbatim>\<open>writeNoData\<close> is \<^verbatim>\<open>void\<close>: the last \<^verbatim>\<open>result\<close> is dropped.\<close>

definition writeNoData :: "bus \<Rightarrow> u8 \<Rightarrow> state \<Rightarrow> state option" where
  "writeNoData b id' s =
     (let i2cTransfer = writeNoData_seq id';
          k = length (xfers s);
          s' = s\<lparr>xfers := xfers s @ [i2cTransfer]\<rparr>
      in case writeNoData_poll (I2C_Transfer b k) 0 (I2C_TransferInit b k) of
           None \<Rightarrow> None
         | Some result \<Rightarrow> Some s')"

text \<open>
  What a read buffer holds after the transfer: the bytes the peripheral stored (at most
  \<open>n\<close>, from the front), then the bytes that were there before.
\<close>

definition received :: "u8 list \<Rightarrow> nat \<Rightarrow> u8 list \<Rightarrow> u8 list" where
  "received rx n buf = take n rx @ drop (length (take n rx)) buf"

definition readMailbox_seq :: "u8 \<Rightarrow> u8 \<Rightarrow> u8 list \<Rightarrow> I2C_TransferSeq" where
  "readMailbox_seq id' length' data' =
     \<lparr>addr = I2C_ADDRESS, flags = I2C_FLAG_WRITE_READ,
      buf0 = ([id'], 1), buf1 = Some (data', unat length')\<rparr>"

text \<open>\<^verbatim>\<open>readMailbox\<close> returns its status, and the buffer \<^verbatim>\<open>data\<close> as the transfer left it.\<close>

definition readMailbox :: "bus \<Rightarrow> u8 \<Rightarrow> u8 \<Rightarrow> u8 list \<Rightarrow> state \<Rightarrow> u8 \<times> u8 list \<times> state" where
  "readMailbox b id' length' data' s =
     (let i2cTransfer = readMailbox_seq id' length' data';
          (result, rx) = I2CSPM_Transfer b (length (xfers s));
          data'' = received rx (unat length') data';
          s' = s\<lparr>xfers := xfers s @ [i2cTransfer]\<rparr>
      in if result \<noteq> i2cTransferDone then (1, data'', s') else (0, data'', s'))"

subsection \<open>The classifier\<close>

text \<open>
  The three branches of the \<^verbatim>\<open>if\<close> chain on \<^verbatim>\<open>concatData\<close> in \<^verbatim>\<open>main\<close> call
  \<^verbatim>\<open>BSP_LedsSet(3)\<close>, \<^verbatim>\<open>BSP_LedsSet(1)\<close> and \<^verbatim>\<open>BSP_LedsSet(0)\<close>: the levels alert,
  warning and good, each with its LED pattern.
\<close>

datatype AirQualityLevel = Good | Warning | Alert

fun led_pattern :: "AirQualityLevel \<Rightarrow> u32" where
  "led_pattern Alert = 3"
| "led_pattern Warning = 1"
| "led_pattern Good = 0"

fun severity :: "AirQualityLevel \<Rightarrow> nat" where
  "severity Good = 0"
| "severity Warning = 1"
| "severity Alert = 2"

definition classify :: "u32 \<Rightarrow> AirQualityLevel" where
  "classify concatData =
     (if concatData > 1200 then Alert
      else if concatData > 900 then Warning
      else Good)"

text \<open>\<^verbatim>\<open>uint32_t concatData = (algresultData[0] << 8) | algresultData[1];\<close>\<close>

definition concatData_of :: "u8 \<Rightarrow> u8 \<Rightarrow> u32" where
  "concatData_of b0 b1 = push_bit 8 (ucast b0) OR ucast b1"

subsection \<open>\<^verbatim>\<open>main\<close>\<close>

text \<open>
  The processor sleeps in \<^verbatim>\<open>EMU_EnterEM3\<close> until an interrupt wakes it. The two GPIO
  interrupts are enabled in the NVIC only between \<^verbatim>\<open>enableSensorInterrupts\<close> and the
  next \<^verbatim>\<open>disableSensorInterrupts\<close>, and the only code of \<^verbatim>\<open>main\<close> there is the sleep, so
  a handler that runs, runs here. Any other interrupt only wakes the processor.
\<close>

datatype wake = GPIO_EVEN_IRQn | GPIO_ODD_IRQn | Other_IRQn

fun EMU_EnterEM3 :: "wake \<Rightarrow> state \<Rightarrow> state" where
  "EMU_EnterEM3 GPIO_EVEN_IRQn s = (if irqEnabled s then GPIO_EVEN_IRQHandler s else s)"
| "EMU_EnterEM3 GPIO_ODD_IRQn s = (if irqEnabled s then GPIO_ODD_IRQHandler s else s)"
| "EMU_EnterEM3 Other_IRQn s = s"

text \<open>\<^verbatim>\<open>readMailbox(id, 1, data)\<close> on the local \<^verbatim>\<open>data[1]\<close>, the status dropped.\<close>

definition read_data :: "bus \<Rightarrow> u8 \<Rightarrow> state \<Rightarrow> state" where
  "read_data b id' s =
     (let (rc, buf, s') = readMailbox b id' 1 (data s) s
      in s'\<lparr>data := buf\<rparr>)"

text \<open>
  The boot sequence: \<^verbatim>\<open>main\<close> from the first \<^verbatim>\<open>Delay(1000)\<close> to the last
  \<^verbatim>\<open>readMailbox\<close> before \<^verbatim>\<open>enableSensorInterrupts\<close>. No return value is read.
\<close>

definition main_boot :: "bus \<Rightarrow> state \<Rightarrow> state option" where
  "main_boot b s0 =
     (let s1 = Delay 1000 s0;
          s2 = Delay 10 s1;
          s3 = read_data b CCS811_ADDR_HW_ID s2;
          s4 = Delay 10 s3;
          s5 = read_data b CCS811_ADDR_STATUS s4;
          s6 = Delay 10 s5
      in case writeNoData b CCS811_ADDR_FW_VERIFY s6 of
           None \<Rightarrow> None
         | Some s7 \<Rightarrow>
            (let s8 = Delay 100 s7
             in case writeNoData b CCS811_ADDR_APP_START s8 of
                  None \<Rightarrow> None
                | Some s9 \<Rightarrow>
                   (let s10 = Delay 1000 s9;
                        s11 = snd (writeRegister b CCS811_ADDR_MEASURE_MODE
                                (CCS811_MEASURE_MODE_DRIVE_MODE_1SEC + CCS811_MEASURE_MODE_INTERRUPT)
                                s10);
                        s12 = Delay 10 s11;
                        s13 = read_data b CCS811_ADDR_ERR_ID s12;
                        s14 = Delay 10 s13;
                        s15 = read_data b CCS811_ADDR_MEASURE_MODE s14
                    in Some s15)))"

text \<open>
  One turn of \<^verbatim>\<open>while (1)\<close>, from \<^verbatim>\<open>disableSensorInterrupts\<close> to
  \<^verbatim>\<open>enableSensorInterrupts\<close>. \<^verbatim>\<open>algresultData\<close> has two elements in the source, so the
  two reads by index are in range there.
\<close>

definition main_loop_body :: "bus \<Rightarrow> state \<Rightarrow> state" where
  "main_loop_body b s0 =
     (let s1 = disableSensorInterrupts s0;
          s2 = (if dataAvailable s1
                then (let (rc, buf, sa) =
                            readMailbox b CCS811_ADDR_ALG_RESULT_DATA 2 (algresultData s1) s1;
                          sb = sa\<lparr>algresultData := buf\<rparr>;
                          concatData = concatData_of (buf ! 0) (buf ! 1);
                          sc = sb\<lparr>dataAvailable := False\<rparr>
                      in BSP_LedsSet (led_pattern (classify concatData)) sc)
                else s1)
      in enableSensorInterrupts s2)"

text \<open>The loop, for as many turns as there are wake-ups.\<close>

fun main_loop :: "bus \<Rightarrow> wake list \<Rightarrow> state \<Rightarrow> state" where
  "main_loop b [] s = s"
| "main_loop b (w # ws) s = main_loop b ws (EMU_EnterEM3 w (main_loop_body b s))"

text \<open>
  \<^verbatim>\<open>main\<close> after the platform initialisation: the boot sequence, the first sleep, the
  loop.
\<close>

definition main :: "bus \<Rightarrow> wake \<Rightarrow> wake list \<Rightarrow> state \<Rightarrow> state option" where
  "main b w ws s0 =
     (case main_boot b s0 of
        None \<Rightarrow> None
      | Some s \<Rightarrow> Some (main_loop b ws (EMU_EnterEM3 w (enableSensorInterrupts s))))"

text \<open>
  The state \<^verbatim>\<open>main\<close> starts from: \<^verbatim>\<open>dataAvailable\<close> is initialised to \<^verbatim>\<open>false\<close>,
  \<^verbatim>\<open>msTicks\<close> is a static and starts at zero, no GPIO interrupt is enabled yet, nothing
  has been sent. The two local arrays hold whatever the stack holds.
\<close>

definition initial :: "u8 list \<Rightarrow> u8 list \<Rightarrow> u32 \<Rightarrow> state" where
  "initial d a l =
     \<lparr>dataAvailable = False, msTicks = 0, data = d, algresultData = a,
      irqEnabled = False, leds = l, xfers = []\<rparr>"

text \<open>A bus on which every transfer is done at once; every read returns \<open>rx\<close>.\<close>

definition bus_done :: "u8 list \<Rightarrow> bus" where
  "bus_done rx =
     \<lparr>I2CSPM_Transfer = (\<lambda>k. (i2cTransferDone, rx)),
      I2C_TransferInit = (\<lambda>k. i2cTransferDone),
      I2C_Transfer = (\<lambda>k j. i2cTransferDone)\<rparr>"

text \<open>The same bus, except that every part of transfer \<open>n\<close> reports failure and stores \<open>rx'\<close>.\<close>

definition bus_fail_at :: "nat \<Rightarrow> u8 list \<Rightarrow> u8 list \<Rightarrow> bus" where
  "bus_fail_at n rx rx' =
     \<lparr>I2CSPM_Transfer = (\<lambda>k. if k = n then (i2cTransferFailed, rx') else (i2cTransferDone, rx)),
      I2C_TransferInit = (\<lambda>k. if k = n then i2cTransferFailed else i2cTransferDone),
      I2C_Transfer = (\<lambda>k j. if k = n then i2cTransferFailed else i2cTransferDone)\<rparr>"

section \<open>Properties\<close>

subsection \<open>The delay and the polling loop\<close>

declare Delay_wait.simps [simp del]

lemma Delay_wait_eq:
  "msTicks s - c \<le> d \<Longrightarrow> Delay_wait c d s = s\<lparr>msTicks := c + d\<rparr>"
proof (induction c d s rule: Delay_wait.induct)
  case (1 c d s)
  show ?case
  proof (cases "msTicks s - c < d")
    case True
    then have "msTicks s - c + 1 \<le> d"
      by (rule inc_le)
    moreover have "msTicks (SysTick_Handler s) - c = msTicks s - c + 1"
      by (simp add: SysTick_Handler_def)
    ultimately have "msTicks (SysTick_Handler s) - c \<le> d"
      by (simp only:)
    with True "1.IH" have "Delay_wait c d (SysTick_Handler s) = (SysTick_Handler s)\<lparr>msTicks := c + d\<rparr>"
      by simp
    with True show ?thesis
      by (subst Delay_wait.simps) (simp add: SysTick_Handler_def)
  next
    case False
    with "1.prems" have "msTicks s - c = d"
      by simp
    then have "msTicks s = c + d"
      by (simp add: diff_eq_eq add.commute)
    with False show ?thesis
      by (subst Delay_wait.simps) simp
  qed
qed

lemma Delay_eq: "Delay d s = s\<lparr>msTicks := msTicks s + d\<rparr>"
  by (simp add: Delay_def Delay_wait_eq)

text \<open>The polling loop leaves exactly when some result is not "in progress".\<close>

lemma poll_done:
  "result \<noteq> i2cTransferInProgress \<Longrightarrow> writeNoData_poll t j result = Some result"
  by (subst writeNoData_poll.simps) simp

lemma poll_step:
  "writeNoData_poll t j i2cTransferInProgress = writeNoData_poll t (Suc j) (t j)"
  by (subst writeNoData_poll.simps) simp

lemma poll_returns:
  "result \<noteq> i2cTransferInProgress \<or> t (j + n) \<noteq> i2cTransferInProgress
    \<Longrightarrow> \<exists>r. writeNoData_poll t j result = Some r"
proof (induction n arbitrary: j result)
  case 0
  show ?case
  proof (cases "result = i2cTransferInProgress")
    case True
    with 0 have "t j \<noteq> i2cTransferInProgress" by simp
    with True show ?thesis by (simp add: poll_step poll_done)
  next
    case False
    then show ?thesis by (simp add: poll_done)
  qed
next
  case (Suc n)
  show ?case
  proof (cases "result = i2cTransferInProgress")
    case True
    with Suc.prems have "t (Suc j + n) \<noteq> i2cTransferInProgress" by simp
    then have "\<exists>r. writeNoData_poll t (Suc j) (t j) = Some r"
      using Suc.IH [of "t j" "Suc j"] by blast
    with True show ?thesis by (simp add: poll_step)
  next
    case False
    then show ?thesis by (simp add: poll_done)
  qed
qed

lemma poll_Some_imp:
  assumes "writeNoData_poll t j result = Some r"
  shows "r \<noteq> i2cTransferInProgress \<and>
     (result \<noteq> i2cTransferInProgress \<or> (\<exists>n. t (j + n) \<noteq> i2cTransferInProgress))"
proof (rule writeNoData_poll.raw_induct
    [where P = "\<lambda>t j result r. r \<noteq> i2cTransferInProgress \<and>
       (result \<noteq> i2cTransferInProgress \<or> (\<exists>n. t (j + n) \<noteq> i2cTransferInProgress))",
     OF _ assms])
  fix poll t j result r
  assume IH: "\<And>t j result r. poll t j result = Some r \<Longrightarrow>
      r \<noteq> i2cTransferInProgress \<and>
      (result \<noteq> i2cTransferInProgress \<or> (\<exists>n. t (j + n) \<noteq> i2cTransferInProgress))"
    and step: "(if result = i2cTransferInProgress then poll t (Suc j) (t j) else Some result) = Some r"
  show "r \<noteq> i2cTransferInProgress \<and>
      (result \<noteq> i2cTransferInProgress \<or> (\<exists>n. t (j + n) \<noteq> i2cTransferInProgress))"
  proof (cases "result = i2cTransferInProgress")
    case True
    with step have "poll t (Suc j) (t j) = Some r" by simp
    from IH [OF this] show ?thesis
      by (metis add_Suc_shift add.right_neutral)
  next
    case False
    with step show ?thesis by simp
  qed
qed

subsection \<open>Decoding and classifying\<close>

lemma unat_ucast_u16_u32: "unat (ucast (v :: u16) :: u32) = unat v"
proof -
  have "unat v < 2 ^ 16"
    using unsigned_less [of v, where 'a = nat] by simp
  then have "unat v < 2 ^ 32"
    by simp
  then show ?thesis
    by (simp add: unsigned_ucast_eq take_bit_nat_eq_self)
qed

lemma classify_ucast:
  "classify (ucast (v :: u16)) =
     (if 1200 < unat v then Alert else if 900 < unat v then Warning else Good)"
  by (simp add: classify_def word_less_nat_alt unat_ucast_u16_u32)

lemma concat_cat: "concatData_of hi lo = ucast (word_cat hi lo :: u16)"
  unfolding concatData_of_def
  by (rule bit_word_eqI) (auto simp add: bit_or_iff bit_push_bit_iff bit_ucast_iff bit_word_cat_iff dest: bit_imp_le_length)

lemma unat_concatData_of: "unat (concatData_of hi lo) = 256 * unat hi + unat lo"
proof -
  have hi: "unat hi < 256"
    using unsigned_less [of hi, where 'a = nat] by simp
  have lo: "unat lo < 256"
    using unsigned_less [of lo, where 'a = nat] by simp
  have "unat (word_cat hi lo :: u16) = 256 * unat hi + unat lo"
    using hi lo
    by (simp add: word_cat_eq unat_word_ariths unsigned_push_bit_eq unsigned_ucast_eq take_bit_nat_eq_self push_bit_eq_mult)
  then show ?thesis
    by (simp add: concat_cat unat_ucast_u16_u32)
qed

subsection \<open>What each operation does to the state\<close>

lemma writeNoData_returns:
  assumes "I2C_TransferInit b (length (xfers s)) \<noteq> i2cTransferInProgress
    \<or> I2C_Transfer b (length (xfers s)) n \<noteq> i2cTransferInProgress"
  shows "writeNoData b id' s = Some (s\<lparr>xfers := xfers s @ [writeNoData_seq id']\<rparr>)"
proof -
  from assms obtain r where
    "writeNoData_poll (I2C_Transfer b (length (xfers s))) 0 (I2C_TransferInit b (length (xfers s))) = Some r"
    using poll_returns [of "I2C_TransferInit b (length (xfers s))" "I2C_Transfer b (length (xfers s))" 0 n]
    by auto
  then show ?thesis
    by (simp add: writeNoData_def)
qed

lemma writeNoData_Some:
  "writeNoData b id' s = Some s' \<Longrightarrow> s' = s\<lparr>xfers := xfers s @ [writeNoData_seq id']\<rparr>"
  by (auto simp: writeNoData_def Let_def split: option.splits)

lemma writeNoData_polled:
  "writeNoData_poll (I2C_Transfer b (length (xfers s))) 0 (I2C_TransferInit b (length (xfers s))) = Some r
    \<Longrightarrow> writeNoData b id' s = Some (s\<lparr>xfers := xfers s @ [writeNoData_seq id']\<rparr>)"
  by (simp add: writeNoData_def)

lemma read_data_eq:
  "read_data b id' s =
     s\<lparr>xfers := xfers s @ [readMailbox_seq id' 1 (data s)],
       data := received (snd (I2CSPM_Transfer b (length (xfers s)))) 1 (data s)\<rparr>"
  by (simp add: read_data_def readMailbox_def Let_def split_def)

lemma writeRegister_eq:
  "snd (writeRegister b id' v s) = s\<lparr>xfers := xfers s @ [writeRegister_seq id' v]\<rparr>"
  by (simp add: writeRegister_def Let_def)

lemma writeNoData_Some_polled:
  "writeNoData b id' s = Some s' \<Longrightarrow>
     \<exists>r. writeNoData_poll (I2C_Transfer b (length (xfers s))) 0
           (I2C_TransferInit b (length (xfers s))) = Some r"
  by (auto simp: writeNoData_def Let_def split: option.splits)

subsection \<open>The boot sequence\<close>

lemma main_boot_polled:
  assumes p2: "writeNoData_poll (I2C_Transfer b (length (xfers s) + 2)) 0
             (I2C_TransferInit b (length (xfers s) + 2)) = Some r2"
    and p3: "writeNoData_poll (I2C_Transfer b (length (xfers s) + 3)) 0
             (I2C_TransferInit b (length (xfers s) + 3)) = Some r3"
  shows "\<exists>s' d1 d2 d3. main_boot b s = Some s' \<and>
     xfers s' = xfers s @
       [readMailbox_seq CCS811_ADDR_HW_ID 1 (data s),
        readMailbox_seq CCS811_ADDR_STATUS 1 d1,
        writeNoData_seq CCS811_ADDR_FW_VERIFY,
        writeNoData_seq CCS811_ADDR_APP_START,
        writeRegister_seq CCS811_ADDR_MEASURE_MODE
          (CCS811_MEASURE_MODE_DRIVE_MODE_1SEC + CCS811_MEASURE_MODE_INTERRUPT),
        readMailbox_seq CCS811_ADDR_ERR_ID 1 d2,
        readMailbox_seq CCS811_ADDR_MEASURE_MODE 1 d3]"
proof -
  define s6 where "s6 = Delay 10 (read_data b CCS811_ADDR_STATUS
      (Delay 10 (read_data b CCS811_ADDR_HW_ID (Delay 10 (Delay 1000 s)))))"
  define d1 where "d1 = received (snd (I2CSPM_Transfer b (length (xfers s)))) 1 (data s)"
  have x6: "xfers s6 = xfers s @
      [readMailbox_seq CCS811_ADDR_HW_ID 1 (data s), readMailbox_seq CCS811_ADDR_STATUS 1 d1]"
    by (simp add: s6_def d1_def Delay_eq read_data_eq)
  then have l6: "length (xfers s6) = length (xfers s) + 2"
    by simp
  define s8 where "s8 = Delay 100 (s6\<lparr>xfers := xfers s6 @ [writeNoData_seq CCS811_ADDR_FW_VERIFY]\<rparr>)"
  have w6: "writeNoData b CCS811_ADDR_FW_VERIFY s6
      = Some (s6\<lparr>xfers := xfers s6 @ [writeNoData_seq CCS811_ADDR_FW_VERIFY]\<rparr>)"
    using p2 by (intro writeNoData_polled [where r = r2]) (simp only: l6)
  have x8: "xfers s8 = xfers s6 @ [writeNoData_seq CCS811_ADDR_FW_VERIFY]"
    by (simp add: s8_def Delay_eq)
  then have l8: "length (xfers s8) = length (xfers s) + 3"
    by (simp add: l6)
  have w8: "writeNoData b CCS811_ADDR_APP_START s8
      = Some (s8\<lparr>xfers := xfers s8 @ [writeNoData_seq CCS811_ADDR_APP_START]\<rparr>)"
    using p3 by (intro writeNoData_polled [where r = r3]) (simp only: l8)
  have "main_boot b s = Some
     (read_data b CCS811_ADDR_MEASURE_MODE (Delay 10 (read_data b CCS811_ADDR_ERR_ID (Delay 10
        (snd (writeRegister b CCS811_ADDR_MEASURE_MODE
           (CCS811_MEASURE_MODE_DRIVE_MODE_1SEC + CCS811_MEASURE_MODE_INTERRUPT)
           (Delay 1000 (s8\<lparr>xfers := xfers s8 @ [writeNoData_seq CCS811_ADDR_APP_START]\<rparr>))))))))"
    unfolding main_boot_def Let_def s6_def [symmetric]
    by (simp only: w6 option.case s8_def [symmetric] w8)
  moreover have "\<exists>d2 d3. xfers
     (read_data b CCS811_ADDR_MEASURE_MODE (Delay 10 (read_data b CCS811_ADDR_ERR_ID (Delay 10
        (snd (writeRegister b CCS811_ADDR_MEASURE_MODE
           (CCS811_MEASURE_MODE_DRIVE_MODE_1SEC + CCS811_MEASURE_MODE_INTERRUPT)
           (Delay 1000 (s8\<lparr>xfers := xfers s8 @ [writeNoData_seq CCS811_ADDR_APP_START]\<rparr>))))))))
     = xfers s @
       [readMailbox_seq CCS811_ADDR_HW_ID 1 (data s),
        readMailbox_seq CCS811_ADDR_STATUS 1 d1,
        writeNoData_seq CCS811_ADDR_FW_VERIFY,
        writeNoData_seq CCS811_ADDR_APP_START,
        writeRegister_seq CCS811_ADDR_MEASURE_MODE
          (CCS811_MEASURE_MODE_DRIVE_MODE_1SEC + CCS811_MEASURE_MODE_INTERRUPT),
        readMailbox_seq CCS811_ADDR_ERR_ID 1 d2,
        readMailbox_seq CCS811_ADDR_MEASURE_MODE 1 d3]"
    by (simp add: Delay_eq read_data_eq writeRegister_eq x8 x6) blast
  ultimately show ?thesis
    by blast
qed

lemma main_boot_Some_polled:
  assumes "main_boot b s = Some s'"
  shows "\<exists>r2 r3.
     writeNoData_poll (I2C_Transfer b (length (xfers s) + 2)) 0
        (I2C_TransferInit b (length (xfers s) + 2)) = Some r2 \<and>
     writeNoData_poll (I2C_Transfer b (length (xfers s) + 3)) 0
        (I2C_TransferInit b (length (xfers s) + 3)) = Some r3"
proof -
  define s6 where "s6 = Delay 10 (read_data b CCS811_ADDR_STATUS
      (Delay 10 (read_data b CCS811_ADDR_HW_ID (Delay 10 (Delay 1000 s)))))"
  have l6: "length (xfers s6) = length (xfers s) + 2"
    by (simp add: s6_def Delay_eq read_data_eq)
  from assms obtain s7 where w6: "writeNoData b CCS811_ADDR_FW_VERIFY s6 = Some s7"
    and rest: "(case writeNoData b CCS811_ADDR_APP_START (Delay 100 s7) of
                  None \<Rightarrow> None | Some s9 \<Rightarrow> Some s') \<noteq> None"
    unfolding main_boot_def Let_def s6_def [symmetric]
    by (auto split: option.splits)
  from rest obtain s9 where w8: "writeNoData b CCS811_ADDR_APP_START (Delay 100 s7) = Some s9"
    by (auto split: option.splits)
  have "length (xfers (Delay 100 s7)) = length (xfers s) + 3"
    using writeNoData_Some [OF w6] by (simp add: Delay_eq l6)
  with writeNoData_Some_polled [OF w6] writeNoData_Some_polled [OF w8] l6
  show ?thesis
    by simp
qed

lemma main_boot_Some_xfers:
  assumes "main_boot b s = Some s'"
  shows "\<exists>d1 d2 d3. xfers s' = xfers s @
       [readMailbox_seq CCS811_ADDR_HW_ID 1 (data s),
        readMailbox_seq CCS811_ADDR_STATUS 1 d1,
        writeNoData_seq CCS811_ADDR_FW_VERIFY,
        writeNoData_seq CCS811_ADDR_APP_START,
        writeRegister_seq CCS811_ADDR_MEASURE_MODE
          (CCS811_MEASURE_MODE_DRIVE_MODE_1SEC + CCS811_MEASURE_MODE_INTERRUPT),
        readMailbox_seq CCS811_ADDR_ERR_ID 1 d2,
        readMailbox_seq CCS811_ADDR_MEASURE_MODE 1 d3]"
proof -
  from main_boot_Some_polled [OF assms] obtain r2 r3 where
    "writeNoData_poll (I2C_Transfer b (length (xfers s) + 2)) 0
        (I2C_TransferInit b (length (xfers s) + 2)) = Some r2"
    "writeNoData_poll (I2C_Transfer b (length (xfers s) + 3)) 0
        (I2C_TransferInit b (length (xfers s) + 3)) = Some r3"
    by blast
  from main_boot_polled [OF this] assms show ?thesis
    by auto
qed

text \<open>The boot sequence returns exactly when both polled commands leave their loops.\<close>

lemma main_boot_returns_iff:
  "(\<exists>s'. main_boot b s = Some s') \<longleftrightarrow>
     (\<exists>r2 r3.
        writeNoData_poll (I2C_Transfer b (length (xfers s) + 2)) 0
          (I2C_TransferInit b (length (xfers s) + 2)) = Some r2 \<and>
        writeNoData_poll (I2C_Transfer b (length (xfers s) + 3)) 0
          (I2C_TransferInit b (length (xfers s) + 3)) = Some r3)"
proof
  assume "\<exists>s'. main_boot b s = Some s'"
  then obtain s' where "main_boot b s = Some s'" ..
  then show "\<exists>r2 r3.
        writeNoData_poll (I2C_Transfer b (length (xfers s) + 2)) 0
          (I2C_TransferInit b (length (xfers s) + 2)) = Some r2 \<and>
        writeNoData_poll (I2C_Transfer b (length (xfers s) + 3)) 0
          (I2C_TransferInit b (length (xfers s) + 3)) = Some r3"
    by (rule main_boot_Some_polled)
next
  assume "\<exists>r2 r3.
        writeNoData_poll (I2C_Transfer b (length (xfers s) + 2)) 0
          (I2C_TransferInit b (length (xfers s) + 2)) = Some r2 \<and>
        writeNoData_poll (I2C_Transfer b (length (xfers s) + 3)) 0
          (I2C_TransferInit b (length (xfers s) + 3)) = Some r3"
  then obtain r2 r3 where
    "writeNoData_poll (I2C_Transfer b (length (xfers s) + 2)) 0
          (I2C_TransferInit b (length (xfers s) + 2)) = Some r2"
    "writeNoData_poll (I2C_Transfer b (length (xfers s) + 3)) 0
          (I2C_TransferInit b (length (xfers s) + 3)) = Some r3"
    by blast
  from main_boot_polled [OF this] show "\<exists>s'. main_boot b s = Some s'"
    by blast
qed

subsection \<open>The read loop\<close>

lemma main_loop_body_idle:
  "\<not> dataAvailable s \<Longrightarrow> main_loop_body b s = s\<lparr>irqEnabled := True\<rparr>"
  by (simp add: main_loop_body_def Let_def disableSensorInterrupts_def enableSensorInterrupts_def)

lemma main_loop_body_ready:
  assumes "dataAvailable s"
  shows "main_loop_body b s =
     (let buf = received (snd (I2CSPM_Transfer b (length (xfers s)))) 2 (algresultData s)
      in s\<lparr>irqEnabled := True,
           xfers := xfers s @ [readMailbox_seq CCS811_ADDR_ALG_RESULT_DATA 2 (algresultData s)],
           algresultData := buf,
           dataAvailable := False,
           leds := led_pattern (classify (concatData_of (buf ! 0) (buf ! 1)))\<rparr>)"
  using assms
  by (simp add: main_loop_body_def Let_def disableSensorInterrupts_def enableSensorInterrupts_def
      readMailbox_def split_def BSP_LedsSet_def)

lemma main_loop_idle:
  "\<not> dataAvailable s \<Longrightarrow> \<forall>w \<in> set ws. w = Other_IRQn \<Longrightarrow>
     main_loop b ws s = (if ws = [] then s else s\<lparr>irqEnabled := True\<rparr>)"
proof (induction ws arbitrary: s)
  case Nil
  show ?case by simp
next
  case (Cons w ws)
  from Cons.prems have w: "w = Other_IRQn" and ws: "\<forall>w \<in> set ws. w = Other_IRQn"
    by simp_all
  have "\<not> dataAvailable (s\<lparr>irqEnabled := True\<rparr>)"
    using Cons.prems(1) by simp
  from Cons.IH [OF this ws] show ?case
    using Cons.prems(1) by (simp add: w main_loop_body_idle)
qed

text \<open>Every transfer descriptor the program builds carries \<open>I2C_ADDRESS\<close>.\<close>

lemma main_loop_body_addr:
  assumes "\<forall>q \<in> set (xfers s). addr q = I2C_ADDRESS"
  shows "\<forall>q \<in> set (xfers (main_loop_body b s)). addr q = I2C_ADDRESS"
proof (cases "dataAvailable s")
  case True
  with assms show ?thesis
    by (simp add: main_loop_body_ready Let_def readMailbox_seq_def)
next
  case False
  with assms show ?thesis
    by (simp add: main_loop_body_idle)
qed

lemma EMU_EnterEM3_xfers: "xfers (EMU_EnterEM3 w s) = xfers s"
  by (cases w) (simp_all add: GPIO_EVEN_IRQHandler_def GPIO_ODD_IRQHandler_def)

lemma main_loop_addr:
  "\<forall>q \<in> set (xfers s). addr q = I2C_ADDRESS \<Longrightarrow>
     \<forall>q \<in> set (xfers (main_loop b ws s)). addr q = I2C_ADDRESS"
proof (induction ws arbitrary: s)
  case Nil
  then show ?case by simp
next
  case (Cons w ws)
  from main_loop_body_addr [OF Cons.prems]
  have "\<forall>q \<in> set (xfers (EMU_EnterEM3 w (main_loop_body b s))). addr q = I2C_ADDRESS"
    by (simp only: EMU_EnterEM3_xfers)
  from Cons.IH [OF this] show ?case
    by simp
qed

lemma main_boot_addr:
  assumes "main_boot b s = Some s'" and "\<forall>q \<in> set (xfers s). addr q = I2C_ADDRESS"
  shows "\<forall>q \<in> set (xfers s'). addr q = I2C_ADDRESS"
proof -
  from main_boot_Some_xfers [OF assms(1)] obtain d1 d2 d3 where "xfers s' = xfers s @
       [readMailbox_seq CCS811_ADDR_HW_ID 1 (data s),
        readMailbox_seq CCS811_ADDR_STATUS 1 d1,
        writeNoData_seq CCS811_ADDR_FW_VERIFY,
        writeNoData_seq CCS811_ADDR_APP_START,
        writeRegister_seq CCS811_ADDR_MEASURE_MODE
          (CCS811_MEASURE_MODE_DRIVE_MODE_1SEC + CCS811_MEASURE_MODE_INTERRUPT),
        readMailbox_seq CCS811_ADDR_ERR_ID 1 d2,
        readMailbox_seq CCS811_ADDR_MEASURE_MODE 1 d3]"
    by blast
  with assms(2) show ?thesis
    by (simp add: readMailbox_seq_def writeNoData_seq_def writeRegister_seq_def)
qed

text \<open>The rules that run the program on a given bus.\<close>

lemmas run_simps = initial_def bus_done_def bus_fail_at_def main_def main_boot_def Let_def Delay_eq
  read_data_eq writeRegister_eq writeNoData_def poll_done received_def
  main_loop_body_def disableSensorInterrupts_def enableSensorInterrupts_def
  readMailbox_def split_def BSP_LedsSet_def GPIO_EVEN_IRQHandler_def GPIO_ODD_IRQHandler_def
  classify_def concatData_of_def

section \<open>The claims\<close>

text \<open>
  Claim C1. The classifier is a total function of the 16-bit concentration value \<open>v\<close>:
  above 1200 it gives Alert, above 900 and up to 1200 Warning, up to 900 Good; so 900 is
  Good, 901 and 1200 are Warning, 1201 is Alert; and the severity of the level never
  decreases when \<open>v\<close> grows.
\<close>

theorem classify_thresholds:
  fixes v w :: u16
  shows "(1200 < v \<longrightarrow> classify (ucast v) = Alert)
    \<and> (900 < v \<and> v \<le> 1200 \<longrightarrow> classify (ucast v) = Warning)
    \<and> (v \<le> 900 \<longrightarrow> classify (ucast v) = Good)
    \<and> classify (ucast (900 :: u16)) = Good
    \<and> classify (ucast (901 :: u16)) = Warning
    \<and> classify (ucast (1200 :: u16)) = Warning
    \<and> classify (ucast (1201 :: u16)) = Alert
    \<and> (v \<le> w \<longrightarrow> severity (classify (ucast v)) \<le> severity (classify (ucast w)))"
proof -
  have bands: "(1200 < v \<longrightarrow> classify (ucast v) = Alert)
      \<and> (900 < v \<and> v \<le> 1200 \<longrightarrow> classify (ucast v) = Warning)
      \<and> (v \<le> 900 \<longrightarrow> classify (ucast v) = Good)"
    by (simp add: classify_ucast word_less_nat_alt word_le_nat_alt)
  have bounds: "classify (ucast (900 :: u16)) = Good \<and> classify (ucast (901 :: u16)) = Warning
      \<and> classify (ucast (1200 :: u16)) = Warning \<and> classify (ucast (1201 :: u16)) = Alert"
    by (simp add: classify_def)
  have mono: "v \<le> w \<longrightarrow> severity (classify (ucast v)) \<le> severity (classify (ucast w))"
    by (simp add: classify_ucast word_le_nat_alt)
  from bands bounds mono show ?thesis
    by blast
qed

theorem classify_thresholds_witness:
  "(1200 :: u16) < 1500 \<and> classify (ucast (1500 :: u16)) = Alert
    \<and> (900 :: u16) < 1000 \<and> (1000 :: u16) \<le> 1200 \<and> classify (ucast (1000 :: u16)) = Warning
    \<and> (400 :: u16) \<le> 900 \<and> classify (ucast (400 :: u16)) = Good
    \<and> (400 :: u16) \<le> 1000
    \<and> severity (classify (ucast (400 :: u16))) \<le> severity (classify (ucast (1000 :: u16)))"
  using classify_thresholds [of 1500 1500] classify_thresholds [of 1000 1000]
    classify_thresholds [of 400 1000]
  by (simp add: classify_def)

text \<open>
  Claim C3 says that a failure of the APP_START command is surfaced and stops the boot
  sequence before the measurement mode is written. On the bus whose fourth transfer
  fails, the boot sequence issues all seven transfers, the write of the measurement mode
  among them, and ends in the same state as on the bus without the failure.
\<close>

theorem app_start_failure_counterexample:
  "I2C_TransferInit (bus_fail_at 3 [0] []) 3 = i2cTransferFailed
    \<and> map_option xfers (main_boot (bus_fail_at 3 [0] []) (initial [0] [0, 0] 0)) =
        Some [readMailbox_seq CCS811_ADDR_HW_ID 1 [0],
              readMailbox_seq CCS811_ADDR_STATUS 1 [0],
              writeNoData_seq CCS811_ADDR_FW_VERIFY,
              writeNoData_seq CCS811_ADDR_APP_START,
              writeRegister_seq CCS811_ADDR_MEASURE_MODE 0x18,
              readMailbox_seq CCS811_ADDR_ERR_ID 1 [0],
              readMailbox_seq CCS811_ADDR_MEASURE_MODE 1 [0]]
    \<and> main_boot (bus_fail_at 3 [0] []) (initial [0] [0, 0] 0)
        = main_boot (bus_done [0]) (initial [0] [0, 0] 0)"
  by (simp add: run_simps CCS811_MEASURE_MODE_DRIVE_MODE_1SEC_def CCS811_MEASURE_MODE_INTERRUPT_def)

text \<open>
  Claim C3, as the code has it. When the APP_START command ends with a result other than
  "done", the boot sequence goes on as after a success: it returns, and the transfer
  after APP_START is the write of the measurement mode.
\<close>

theorem main_boot_proceeds_after_app_start:
  assumes "writeNoData_poll (I2C_Transfer b (length (xfers s) + 2)) 0
             (I2C_TransferInit b (length (xfers s) + 2)) = Some r2"
    and "writeNoData_poll (I2C_Transfer b (length (xfers s) + 3)) 0
             (I2C_TransferInit b (length (xfers s) + 3)) = Some r3"
    and "r3 \<noteq> i2cTransferDone"
  shows "\<exists>s'. main_boot b s = Some s'
     \<and> xfers s' ! (length (xfers s) + 3) = writeNoData_seq CCS811_ADDR_APP_START
     \<and> xfers s' ! (length (xfers s) + 4) =
         writeRegister_seq CCS811_ADDR_MEASURE_MODE
          (CCS811_MEASURE_MODE_DRIVE_MODE_1SEC + CCS811_MEASURE_MODE_INTERRUPT)"
proof -
  from main_boot_polled [OF assms(1) assms(2)] obtain s' d1 d2 d3 where
    "main_boot b s = Some s'" and x: "xfers s' = xfers s @
       [readMailbox_seq CCS811_ADDR_HW_ID 1 (data s),
        readMailbox_seq CCS811_ADDR_STATUS 1 d1,
        writeNoData_seq CCS811_ADDR_FW_VERIFY,
        writeNoData_seq CCS811_ADDR_APP_START,
        writeRegister_seq CCS811_ADDR_MEASURE_MODE
          (CCS811_MEASURE_MODE_DRIVE_MODE_1SEC + CCS811_MEASURE_MODE_INTERRUPT),
        readMailbox_seq CCS811_ADDR_ERR_ID 1 d2,
        readMailbox_seq CCS811_ADDR_MEASURE_MODE 1 d3]"
    by blast
  moreover from x have "xfers s' ! (length (xfers s) + 3) = writeNoData_seq CCS811_ADDR_APP_START"
    by (simp add: nth_append)
  moreover from x have "xfers s' ! (length (xfers s) + 4) =
      writeRegister_seq CCS811_ADDR_MEASURE_MODE
          (CCS811_MEASURE_MODE_DRIVE_MODE_1SEC + CCS811_MEASURE_MODE_INTERRUPT)"
    by (simp add: nth_append)
  ultimately show ?thesis
    by blast
qed

theorem main_boot_proceeds_after_app_start_witness:
  "writeNoData_poll (I2C_Transfer (bus_fail_at 3 [0] []) (length (xfers (initial [0] [0, 0] 0)) + 2)) 0
       (I2C_TransferInit (bus_fail_at 3 [0] []) (length (xfers (initial [0] [0, 0] 0)) + 2))
     = Some i2cTransferDone
   \<and> writeNoData_poll (I2C_Transfer (bus_fail_at 3 [0] []) (length (xfers (initial [0] [0, 0] 0)) + 3)) 0
       (I2C_TransferInit (bus_fail_at 3 [0] []) (length (xfers (initial [0] [0, 0] 0)) + 3))
     = Some i2cTransferFailed
   \<and> i2cTransferFailed \<noteq> i2cTransferDone
   \<and> (\<exists>s'. main_boot (bus_fail_at 3 [0] []) (initial [0] [0, 0] 0) = Some s'
     \<and> xfers s' ! 3 = writeNoData_seq CCS811_ADDR_APP_START
     \<and> xfers s' ! 4 =
         writeRegister_seq CCS811_ADDR_MEASURE_MODE
          (CCS811_MEASURE_MODE_DRIVE_MODE_1SEC + CCS811_MEASURE_MODE_INTERRUPT))"
proof -
  have p2: "writeNoData_poll (I2C_Transfer (bus_fail_at 3 [0] []) (length (xfers (initial [0] [0, 0] 0)) + 2)) 0
       (I2C_TransferInit (bus_fail_at 3 [0] []) (length (xfers (initial [0] [0, 0] 0)) + 2))
     = Some i2cTransferDone"
    by (simp add: bus_fail_at_def initial_def poll_done)
  have p3: "writeNoData_poll (I2C_Transfer (bus_fail_at 3 [0] []) (length (xfers (initial [0] [0, 0] 0)) + 3)) 0
       (I2C_TransferInit (bus_fail_at 3 [0] []) (length (xfers (initial [0] [0, 0] 0)) + 3))
     = Some i2cTransferFailed"
    by (simp add: bus_fail_at_def initial_def poll_done)
  have ne: "i2cTransferFailed \<noteq> i2cTransferDone"
    by simp
  from main_boot_proceeds_after_app_start [OF p2 p3 ne] p2 p3 show ?thesis
    by (simp add: initial_def)
qed

text \<open>
  Claim C4. Whatever the bus answers, the boot sequence starts its transfers in one
  fixed order, each to the address 0xB6: a write-read of 1 byte from HW_ID (0x20), a
  write-read of 1 byte from STATUS (0x00), the one-byte write FW_VERIFY (0xF3), the
  one-byte write APP_START (0xF4), the write-write of the byte 0x18 (1-second drive mode
  with the interrupt) to MEASURE_MODE (0x01), a write-read of 1 byte from ERR_ID (0xE0),
  a write-read of 1 byte from MEASURE_MODE (0x01). The bytes the reads return, and the
  results of the transfers, change nothing in it. The sequence ends as soon as each of
  the two polled commands gets one result that is not "in progress".
\<close>

theorem main_boot_order:
  assumes "I2C_TransferInit b (length (xfers s) + 2) \<noteq> i2cTransferInProgress
      \<or> I2C_Transfer b (length (xfers s) + 2) n \<noteq> i2cTransferInProgress"
    and "I2C_TransferInit b (length (xfers s) + 3) \<noteq> i2cTransferInProgress
      \<or> I2C_Transfer b (length (xfers s) + 3) m \<noteq> i2cTransferInProgress"
  shows "\<exists>s' d1 d2 d3. main_boot b s = Some s' \<and>
     xfers s' = xfers s @
       [\<lparr>addr = 0xB6, flags = I2C_FLAG_WRITE_READ,
         buf0 = ([0x20], 1), buf1 = Some (data s, 1)\<rparr>,
        \<lparr>addr = 0xB6, flags = I2C_FLAG_WRITE_READ,
         buf0 = ([0x00], 1), buf1 = Some (d1, 1)\<rparr>,
        \<lparr>addr = 0xB6, flags = I2C_FLAG_WRITE,
         buf0 = ([0xF3], 1), buf1 = None\<rparr>,
        \<lparr>addr = 0xB6, flags = I2C_FLAG_WRITE,
         buf0 = ([0xF4], 1), buf1 = None\<rparr>,
        \<lparr>addr = 0xB6, flags = I2C_FLAG_WRITE_WRITE,
         buf0 = ([0x01], 1), buf1 = Some ([0x18], 1)\<rparr>,
        \<lparr>addr = 0xB6, flags = I2C_FLAG_WRITE_READ,
         buf0 = ([0xE0], 1), buf1 = Some (d2, 1)\<rparr>,
        \<lparr>addr = 0xB6, flags = I2C_FLAG_WRITE_READ,
         buf0 = ([0x01], 1), buf1 = Some (d3, 1)\<rparr>]"
proof -
  from assms(1) obtain r2 where
    "writeNoData_poll (I2C_Transfer b (length (xfers s) + 2)) 0
        (I2C_TransferInit b (length (xfers s) + 2)) = Some r2"
    using poll_returns [of "I2C_TransferInit b (length (xfers s) + 2)"
        "I2C_Transfer b (length (xfers s) + 2)" 0 n]
    by auto
  moreover from assms(2) obtain r3 where
    "writeNoData_poll (I2C_Transfer b (length (xfers s) + 3)) 0
        (I2C_TransferInit b (length (xfers s) + 3)) = Some r3"
    using poll_returns [of "I2C_TransferInit b (length (xfers s) + 3)"
        "I2C_Transfer b (length (xfers s) + 3)" 0 m]
    by auto
  ultimately obtain s' d1 d2 d3 where ret: "main_boot b s = Some s'"
    and x: "xfers s' = xfers s @
       [readMailbox_seq CCS811_ADDR_HW_ID 1 (data s),
        readMailbox_seq CCS811_ADDR_STATUS 1 d1,
        writeNoData_seq CCS811_ADDR_FW_VERIFY,
        writeNoData_seq CCS811_ADDR_APP_START,
        writeRegister_seq CCS811_ADDR_MEASURE_MODE
          (CCS811_MEASURE_MODE_DRIVE_MODE_1SEC + CCS811_MEASURE_MODE_INTERRUPT),
        readMailbox_seq CCS811_ADDR_ERR_ID 1 d2,
        readMailbox_seq CCS811_ADDR_MEASURE_MODE 1 d3]"
    using main_boot_polled [of b s r2 r3] by blast
  have "xfers s' = xfers s @
       [\<lparr>addr = 0xB6, flags = I2C_FLAG_WRITE_READ,
         buf0 = ([0x20], 1), buf1 = Some (data s, 1)\<rparr>,
        \<lparr>addr = 0xB6, flags = I2C_FLAG_WRITE_READ,
         buf0 = ([0x00], 1), buf1 = Some (d1, 1)\<rparr>,
        \<lparr>addr = 0xB6, flags = I2C_FLAG_WRITE,
         buf0 = ([0xF3], 1), buf1 = None\<rparr>,
        \<lparr>addr = 0xB6, flags = I2C_FLAG_WRITE,
         buf0 = ([0xF4], 1), buf1 = None\<rparr>,
        \<lparr>addr = 0xB6, flags = I2C_FLAG_WRITE_WRITE,
         buf0 = ([0x01], 1), buf1 = Some ([0x18], 1)\<rparr>,
        \<lparr>addr = 0xB6, flags = I2C_FLAG_WRITE_READ,
         buf0 = ([0xE0], 1), buf1 = Some (d2, 1)\<rparr>,
        \<lparr>addr = 0xB6, flags = I2C_FLAG_WRITE_READ,
         buf0 = ([0x01], 1), buf1 = Some (d3, 1)\<rparr>]"
    unfolding x
    by (simp add: readMailbox_seq_def writeNoData_seq_def writeRegister_seq_def I2C_ADDRESS_def
        CCS811_ADDR_HW_ID_def CCS811_ADDR_STATUS_def CCS811_ADDR_FW_VERIFY_def
        CCS811_ADDR_APP_START_def CCS811_ADDR_MEASURE_MODE_def CCS811_ADDR_ERR_ID_def
        CCS811_MEASURE_MODE_DRIVE_MODE_1SEC_def CCS811_MEASURE_MODE_INTERRUPT_def)
  with ret show ?thesis
    by blast
qed

theorem main_boot_order_witness:
  "\<exists>s' d1 d2 d3. main_boot (bus_done [0x81]) (initial [0] [0, 0] 0) = Some s' \<and>
     xfers s' =
       [\<lparr>addr = 0xB6, flags = I2C_FLAG_WRITE_READ,
         buf0 = ([0x20], 1), buf1 = Some ([0], 1)\<rparr>,
        \<lparr>addr = 0xB6, flags = I2C_FLAG_WRITE_READ,
         buf0 = ([0x00], 1), buf1 = Some (d1, 1)\<rparr>,
        \<lparr>addr = 0xB6, flags = I2C_FLAG_WRITE,
         buf0 = ([0xF3], 1), buf1 = None\<rparr>,
        \<lparr>addr = 0xB6, flags = I2C_FLAG_WRITE,
         buf0 = ([0xF4], 1), buf1 = None\<rparr>,
        \<lparr>addr = 0xB6, flags = I2C_FLAG_WRITE_WRITE,
         buf0 = ([0x01], 1), buf1 = Some ([0x18], 1)\<rparr>,
        \<lparr>addr = 0xB6, flags = I2C_FLAG_WRITE_READ,
         buf0 = ([0xE0], 1), buf1 = Some (d2, 1)\<rparr>,
        \<lparr>addr = 0xB6, flags = I2C_FLAG_WRITE_READ,
         buf0 = ([0x01], 1), buf1 = Some (d3, 1)\<rparr>]"
  using main_boot_order [of "bus_done [0x81]" "initial [0] [0, 0] 0" 0 0]
  by (simp add: initial_def bus_done_def)

text \<open>
  Claim C8. The byte \<^verbatim>\<open>main\<close> writes to MEASURE_MODE is 0x18: the drive-mode field, at
  the shift of four bits under the mask 0x70, holds 1 (one measurement a second); bit 3,
  the interrupt enable, is set; bit 2, the threshold interrupt, is clear. It is the one
  payload byte of the fifth transfer of the boot sequence.
\<close>

theorem measure_mode_byte:
  "CCS811_MEASURE_MODE_DRIVE_MODE_1SEC + CCS811_MEASURE_MODE_INTERRUPT = 0x18
    \<and> CCS811_MEASURE_MODE_DRIVE_MODE_1SEC = push_bit CCS811_MEASURE_MODE_DRIVE_MODE_SHIFT 1
    \<and> drop_bit CCS811_MEASURE_MODE_DRIVE_MODE_SHIFT
         ((CCS811_MEASURE_MODE_DRIVE_MODE_1SEC + CCS811_MEASURE_MODE_INTERRUPT) AND 0x70) = 1
    \<and> CCS811_MEASURE_MODE_INTERRUPT = push_bit 3 1
    \<and> bit (CCS811_MEASURE_MODE_DRIVE_MODE_1SEC + CCS811_MEASURE_MODE_INTERRUPT) 3
    \<and> CCS811_MEASURE_MODE_THRESH = push_bit 2 1
    \<and> \<not> bit (CCS811_MEASURE_MODE_DRIVE_MODE_1SEC + CCS811_MEASURE_MODE_INTERRUPT) 2
    \<and> (main_boot b s = Some s' \<longrightarrow>
          xfers s' ! (length (xfers s) + 4) = writeRegister_seq CCS811_ADDR_MEASURE_MODE 0x18
          \<and> buf0 (xfers s' ! (length (xfers s) + 4)) = ([0x01], 1)
          \<and> buf1 (xfers s' ! (length (xfers s) + 4)) = Some ([0x18], 1))"
proof -
  have byte: "CCS811_MEASURE_MODE_DRIVE_MODE_1SEC + CCS811_MEASURE_MODE_INTERRUPT = 0x18"
    by (simp add: CCS811_MEASURE_MODE_DRIVE_MODE_1SEC_def CCS811_MEASURE_MODE_INTERRUPT_def)
  have drive: "CCS811_MEASURE_MODE_DRIVE_MODE_1SEC = push_bit CCS811_MEASURE_MODE_DRIVE_MODE_SHIFT 1"
    by (simp add: CCS811_MEASURE_MODE_DRIVE_MODE_1SEC_def CCS811_MEASURE_MODE_DRIVE_MODE_SHIFT_def)
  have field: "drop_bit CCS811_MEASURE_MODE_DRIVE_MODE_SHIFT
      ((CCS811_MEASURE_MODE_DRIVE_MODE_1SEC + CCS811_MEASURE_MODE_INTERRUPT) AND 0x70) = 1"
    by (simp add: byte CCS811_MEASURE_MODE_DRIVE_MODE_SHIFT_def)
  have int: "CCS811_MEASURE_MODE_INTERRUPT = push_bit 3 1"
    by (simp add: CCS811_MEASURE_MODE_INTERRUPT_def)
  have b3: "bit (CCS811_MEASURE_MODE_DRIVE_MODE_1SEC + CCS811_MEASURE_MODE_INTERRUPT) 3"
    by (simp add: byte bit_iff_odd_drop_bit drop_bit_eq_div)
  have thresh: "CCS811_MEASURE_MODE_THRESH = push_bit 2 1"
    by (simp add: CCS811_MEASURE_MODE_THRESH_def)
  have b2: "\<not> bit (CCS811_MEASURE_MODE_DRIVE_MODE_1SEC + CCS811_MEASURE_MODE_INTERRUPT) 2"
    by (simp add: byte bit_iff_odd_drop_bit drop_bit_eq_div)
  have boot: "xfers s' ! (length (xfers s) + 4) = writeRegister_seq CCS811_ADDR_MEASURE_MODE 0x18
      \<and> buf0 (xfers s' ! (length (xfers s) + 4)) = ([0x01], 1)
      \<and> buf1 (xfers s' ! (length (xfers s) + 4)) = Some ([0x18], 1)"
    if "main_boot b s = Some s'"
  proof -
    from main_boot_Some_xfers [OF that] obtain d1 d2 d3 where "xfers s' = xfers s @
       [readMailbox_seq CCS811_ADDR_HW_ID 1 (data s),
        readMailbox_seq CCS811_ADDR_STATUS 1 d1,
        writeNoData_seq CCS811_ADDR_FW_VERIFY,
        writeNoData_seq CCS811_ADDR_APP_START,
        writeRegister_seq CCS811_ADDR_MEASURE_MODE
          (CCS811_MEASURE_MODE_DRIVE_MODE_1SEC + CCS811_MEASURE_MODE_INTERRUPT),
        readMailbox_seq CCS811_ADDR_ERR_ID 1 d2,
        readMailbox_seq CCS811_ADDR_MEASURE_MODE 1 d3]"
      by blast
    then have "xfers s' ! (length (xfers s) + 4) =
        writeRegister_seq CCS811_ADDR_MEASURE_MODE 0x18"
      by (simp add: nth_append byte)
    then show ?thesis
      by (simp add: writeRegister_seq_def CCS811_ADDR_MEASURE_MODE_def)
  qed
  from byte drive field int b3 thresh b2 boot show ?thesis
    by blast
qed

theorem measure_mode_byte_witness:
  "\<exists>s'. main_boot (bus_done [0]) (initial [0] [0, 0] 0) = Some s'
     \<and> xfers s' ! 4 = writeRegister_seq CCS811_ADDR_MEASURE_MODE 0x18
     \<and> buf1 (xfers s' ! 4) = Some ([0x18], 1)"
proof -
  obtain s' where s': "main_boot (bus_done [0]) (initial [0] [0, 0] 0) = Some s'"
    by (simp add: run_simps)
  have "length (xfers (initial [0] [0, 0] 0)) + 4 = 4"
    by (simp add: initial_def)
  with measure_mode_byte [of "bus_done [0]" "initial [0] [0, 0] 0" s'] s' show ?thesis
    by auto
qed

text \<open>
  Claim C9. Every transfer descriptor carries the one constant \<open>I2C_ADDRESS\<close>, in every
  transfer \<^verbatim>\<open>main\<close> ever starts. The \<^verbatim>\<open>addr\<close> field holds the bus address left-aligned,
  over the read/write bit: the constant 0xB6 has bit 0 clear and is the address 0x5B
  shifted left by one, and 0x5B is representable in 7 bits.
\<close>

theorem I2C_ADDRESS_fixed:
  "addr (writeRegister_seq id' v) = 0xB6
    \<and> addr (writeMailbox_seq id' p) = 0xB6
    \<and> addr (writeNoData_seq id') = 0xB6
    \<and> addr (readMailbox_seq id' n buf) = 0xB6
    \<and> I2C_ADDRESS = 0xB6
    \<and> I2C_ADDRESS = push_bit 1 0x5B
    \<and> \<not> bit I2C_ADDRESS 0
    \<and> drop_bit 1 I2C_ADDRESS = 0x5B
    \<and> unat (drop_bit 1 I2C_ADDRESS) < 2 ^ 7
    \<and> (main b w ws (initial d a l) = Some s' \<longrightarrow> (\<forall>q \<in> set (xfers s'). addr q = 0xB6))"
proof -
  have s1: "addr (writeRegister_seq id' v) = 0xB6"
    by (simp add: writeRegister_seq_def I2C_ADDRESS_def)
  have s2: "addr (writeMailbox_seq id' p) = 0xB6"
    by (simp add: writeMailbox_seq_def I2C_ADDRESS_def)
  have s3: "addr (writeNoData_seq id') = 0xB6"
    by (simp add: writeNoData_seq_def I2C_ADDRESS_def)
  have s4: "addr (readMailbox_seq id' n buf) = 0xB6"
    by (simp add: readMailbox_seq_def I2C_ADDRESS_def)
  have n1: "I2C_ADDRESS = 0xB6"
    by (simp add: I2C_ADDRESS_def)
  have n2: "I2C_ADDRESS = push_bit 1 0x5B"
    by (simp add: I2C_ADDRESS_def)
  have n3: "\<not> bit I2C_ADDRESS 0"
    by (simp add: I2C_ADDRESS_def)
  have n4: "drop_bit 1 I2C_ADDRESS = 0x5B"
    by (simp add: I2C_ADDRESS_def drop_bit_eq_div)
  have n5: "unat (drop_bit 1 I2C_ADDRESS) < 2 ^ 7"
    unfolding n4 by simp
  have run: "\<forall>q \<in> set (xfers s'). addr q = 0xB6"
    if m: "main b w ws (initial d a l) = Some s'"
  proof -
    from m obtain s1 where b: "main_boot b (initial d a l) = Some s1"
      and s': "s' = main_loop b ws (EMU_EnterEM3 w (enableSensorInterrupts s1))"
      by (auto simp: main_def split: option.splits)
    have "\<forall>q \<in> set (xfers (initial d a l)). addr q = I2C_ADDRESS"
      by (simp add: initial_def)
    from main_boot_addr [OF b this]
    have "\<forall>q \<in> set (xfers (EMU_EnterEM3 w (enableSensorInterrupts s1))). addr q = I2C_ADDRESS"
      by (simp add: EMU_EnterEM3_xfers enableSensorInterrupts_def)
    from main_loop_addr [OF this] have "\<forall>q \<in> set (xfers s'). addr q = I2C_ADDRESS"
      by (simp only: s')
    then show ?thesis
      unfolding I2C_ADDRESS_def .
  qed
  from s1 s2 s3 s4 n1 n2 n3 n4 n5 run show ?thesis
    by blast
qed

theorem I2C_ADDRESS_fixed_witness:
  "\<exists>s'. main (bus_done [0x03, 0x84]) GPIO_EVEN_IRQn [GPIO_ODD_IRQn, Other_IRQn]
        (initial [0] [0, 0] 0) = Some s'
     \<and> map addr (xfers s') = replicate 9 0xB6"
proof -
  obtain s' where s': "main (bus_done [0x03, 0x84]) GPIO_EVEN_IRQn [GPIO_ODD_IRQn, Other_IRQn]
      (initial [0] [0, 0] 0) = Some s'" and n: "length (xfers s') = 9"
    by (simp add: run_simps)
  from I2C_ADDRESS_fixed [of _ _ _ _ _ "bus_done [0x03, 0x84]" GPIO_EVEN_IRQn
      "[GPIO_ODD_IRQn, Other_IRQn]" "[0]" "[0, 0]" 0 s'] s'
  have "\<forall>q \<in> set (xfers s'). addr q = 0xB6"
    by blast
  then have "map addr (xfers s') = replicate (length (xfers s')) 0xB6"
    by (simp add: map_replicate_const [symmetric] cong: map_cong)
  with s' n show ?thesis
    by simp
qed

text \<open>
  Claim C2 says that a read-loop iteration whose read fails classifies nothing and leaves
  the output level as it was. Two runs of \<^verbatim>\<open>main\<close> show otherwise. In the first, the
  reading 0x0384 has set the level Good; the next read fails after storing one byte,
  0x05, and the level becomes Alert, from 0x0584. In the second, the first read after the
  boot sequence fails and stores nothing, and the level is set from the two bytes the
  uninitialised array held, here 0x05DC.
\<close>

theorem failed_read_counterexample:
  "fst (I2CSPM_Transfer (bus_fail_at 8 [0x03, 0x84] [0x05]) 8) = i2cTransferFailed
    \<and> map_option leds (main (bus_fail_at 8 [0x03, 0x84] [0x05]) GPIO_EVEN_IRQn
          [GPIO_ODD_IRQn] (initial [0] [0, 0] 3)) = Some (led_pattern Good)
    \<and> map_option leds (main (bus_fail_at 8 [0x03, 0x84] [0x05]) GPIO_EVEN_IRQn
          [GPIO_ODD_IRQn, Other_IRQn] (initial [0] [0, 0] 3)) = Some (led_pattern Alert)
    \<and> fst (I2CSPM_Transfer (bus_fail_at 7 [0] []) 7) = i2cTransferFailed
    \<and> map_option leds (main (bus_fail_at 7 [0] []) GPIO_EVEN_IRQn
          [] (initial [0] [0x05, 0xDC] 0)) = Some (led_pattern Good)
    \<and> map_option leds (main (bus_fail_at 7 [0] []) GPIO_EVEN_IRQn
          [Other_IRQn] (initial [0] [0x05, 0xDC] 0)) = Some (led_pattern Alert)"
  by (simp add: run_simps)

text \<open>
  Claim C2, as the code has it. In a read-loop iteration whose read of the algorithm
  result fails, \<^verbatim>\<open>readMailbox\<close> returns 1, and \<^verbatim>\<open>main\<close> does not look at it: the two
  bytes that \<^verbatim>\<open>algresultData\<close> holds after the transfer (what the transfer stored, and
  behind it what was there before) are decoded and classified, and the LEDs are set from
  them.
\<close>

theorem failed_read_still_classified:
  assumes "dataAvailable s"
    and "fst (I2CSPM_Transfer b (length (xfers s))) \<noteq> i2cTransferDone"
  shows "fst (readMailbox b CCS811_ADDR_ALG_RESULT_DATA 2 (algresultData s)
            (disableSensorInterrupts s)) = 1
    \<and> algresultData (main_loop_body b s)
        = received (snd (I2CSPM_Transfer b (length (xfers s)))) 2 (algresultData s)
    \<and> leds (main_loop_body b s)
        = led_pattern (classify (concatData_of (algresultData (main_loop_body b s) ! 0)
                                               (algresultData (main_loop_body b s) ! 1)))"
  using assms
  by (simp add: main_loop_body_ready Let_def readMailbox_def split_def
      disableSensorInterrupts_def)

theorem failed_read_still_classified_witness:
  "dataAvailable (GPIO_EVEN_IRQHandler (initial [0] [0x03, 0x84] 0))
    \<and> fst (I2CSPM_Transfer (bus_fail_at 0 [] [0x05])
          (length (xfers (GPIO_EVEN_IRQHandler (initial [0] [0x03, 0x84] 0))))) \<noteq> i2cTransferDone
    \<and> algresultData (main_loop_body (bus_fail_at 0 [] [0x05])
          (GPIO_EVEN_IRQHandler (initial [0] [0x03, 0x84] 0))) = [0x05, 0x84]
    \<and> leds (main_loop_body (bus_fail_at 0 [] [0x05])
          (GPIO_EVEN_IRQHandler (initial [0] [0x03, 0x84] 0))) = led_pattern Alert"
proof -
  have d: "dataAvailable (GPIO_EVEN_IRQHandler (initial [0] [0x03, 0x84] 0))"
    by (simp add: GPIO_EVEN_IRQHandler_def)
  have f: "fst (I2CSPM_Transfer (bus_fail_at 0 [] [0x05])
          (length (xfers (GPIO_EVEN_IRQHandler (initial [0] [0x03, 0x84] 0))))) \<noteq> i2cTransferDone"
    by (simp add: GPIO_EVEN_IRQHandler_def initial_def bus_fail_at_def)
  from failed_read_still_classified [OF d f] d f show ?thesis
    by (simp add: GPIO_EVEN_IRQHandler_def initial_def bus_fail_at_def received_def
        classify_def concatData_of_def)
qed

text \<open>
  Claim C5. When the flag is set and the read of the algorithm result is done with the
  bytes \<open>hi\<close>, \<open>lo\<close>, the loop decodes the value \<open>256 * hi + lo\<close>, the high byte
  first, and calls \<^verbatim>\<open>BSP_LedsSet\<close> with 3 (Alert) above 1200, with 1 (Warning) above
  900, with 0 (Good) otherwise. The bytes 0x03, 0x84 (900) give Good, LEDs 0, and the
  bytes 0x05, 0xDC (1500) give Alert, LEDs 3, in one turn of the loop and in a run of
  \<^verbatim>\<open>main\<close> from the boot sequence on, on a bus where every transfer is done.
\<close>

theorem read_loop_decodes_big_endian:
  assumes "dataAvailable s"
    and "I2CSPM_Transfer b (length (xfers s)) = (i2cTransferDone, [hi, lo])"
  shows "unat (concatData_of hi lo) = 256 * unat hi + unat lo
    \<and> classify (concatData_of hi lo) =
        (if 1200 < 256 * unat hi + unat lo then Alert
         else if 900 < 256 * unat hi + unat lo then Warning else Good)
    \<and> leds (main_loop_body b s) =
        (if 1200 < 256 * unat hi + unat lo then 3
         else if 900 < 256 * unat hi + unat lo then 1 else 0)
    \<and> led_pattern Good = 0 \<and> led_pattern Warning = 1 \<and> led_pattern Alert = 3
    \<and> (hi = 0x03 \<and> lo = 0x84 \<longrightarrow>
          classify (concatData_of hi lo) = Good \<and> leds (main_loop_body b s) = 0)
    \<and> (hi = 0x05 \<and> lo = 0xDC \<longrightarrow>
          classify (concatData_of hi lo) = Alert \<and> leds (main_loop_body b s) = 3)
    \<and> map_option leds (main (bus_done [0x03, 0x84]) GPIO_EVEN_IRQn [Other_IRQn] (initial d a 3))
        = Some 0
    \<and> map_option leds (main (bus_done [0x05, 0xDC]) GPIO_EVEN_IRQn [Other_IRQn] (initial d a 0))
        = Some 3"
proof -
  have u: "unat (concatData_of hi lo) = 256 * unat hi + unat lo"
    by (rule unat_concatData_of)
  have c: "classify (concatData_of hi lo) =
        (if 1200 < 256 * unat hi + unat lo then Alert
         else if 900 < 256 * unat hi + unat lo then Warning else Good)"
    by (simp add: classify_def word_less_nat_alt u)
  have "leds (main_loop_body b s) = led_pattern (classify (concatData_of hi lo))"
    using assms by (simp add: main_loop_body_ready Let_def received_def)
  then have l: "leds (main_loop_body b s) =
        (if 1200 < 256 * unat hi + unat lo then 3
         else if 900 < 256 * unat hi + unat lo then 1 else 0)"
    by (simp add: c)
  have p: "led_pattern Good = 0 \<and> led_pattern Warning = 1 \<and> led_pattern Alert = 3"
    by simp
  have g: "hi = 0x03 \<and> lo = 0x84 \<longrightarrow>
      classify (concatData_of hi lo) = Good \<and> leds (main_loop_body b s) = 0"
    using l by (auto simp add: classify_def concatData_of_def)
  have h: "hi = 0x05 \<and> lo = 0xDC \<longrightarrow>
      classify (concatData_of hi lo) = Alert \<and> leds (main_loop_body b s) = 3"
    using l by (auto simp add: classify_def concatData_of_def)
  have e1: "map_option leds (main (bus_done [0x03, 0x84]) GPIO_EVEN_IRQn [Other_IRQn] (initial d a 3))
        = Some 0"
    by (simp add: run_simps)
  have e2: "map_option leds (main (bus_done [0x05, 0xDC]) GPIO_EVEN_IRQn [Other_IRQn] (initial d a 0))
        = Some 3"
    by (simp add: run_simps)
  from u c l p g h e1 e2 show ?thesis
    by blast
qed

theorem read_loop_decodes_big_endian_witness:
  "dataAvailable (GPIO_EVEN_IRQHandler (initial [0] [0, 0] 3))
    \<and> I2CSPM_Transfer (bus_done [0x03, 0x84])
         (length (xfers (GPIO_EVEN_IRQHandler (initial [0] [0, 0] 3)))) = (i2cTransferDone, [0x03, 0x84])
    \<and> leds (main_loop_body (bus_done [0x03, 0x84]) (GPIO_EVEN_IRQHandler (initial [0] [0, 0] 3)))
        = 0
    \<and> dataAvailable (GPIO_EVEN_IRQHandler (initial [0] [0, 0] 0))
    \<and> I2CSPM_Transfer (bus_done [0x05, 0xDC])
         (length (xfers (GPIO_EVEN_IRQHandler (initial [0] [0, 0] 0)))) = (i2cTransferDone, [0x05, 0xDC])
    \<and> leds (main_loop_body (bus_done [0x05, 0xDC]) (GPIO_EVEN_IRQHandler (initial [0] [0, 0] 0)))
        = 3"
proof -
  have d3: "dataAvailable (GPIO_EVEN_IRQHandler (initial [0] [0, 0] 3))"
    by (simp add: GPIO_EVEN_IRQHandler_def)
  have d0: "dataAvailable (GPIO_EVEN_IRQHandler (initial [0] [0, 0] 0))"
    by (simp add: GPIO_EVEN_IRQHandler_def)
  have g: "I2CSPM_Transfer (bus_done [0x03, 0x84])
         (length (xfers (GPIO_EVEN_IRQHandler (initial [0] [0, 0] 3)))) = (i2cTransferDone, [0x03, 0x84])"
    by (simp add: bus_done_def)
  have h: "I2CSPM_Transfer (bus_done [0x05, 0xDC])
         (length (xfers (GPIO_EVEN_IRQHandler (initial [0] [0, 0] 0)))) = (i2cTransferDone, [0x05, 0xDC])"
    by (simp add: bus_done_def)
  have "leds (main_loop_body (bus_done [0x03, 0x84]) (GPIO_EVEN_IRQHandler (initial [0] [0, 0] 3)))
        = 0"
    using read_loop_decodes_big_endian [OF d3 g] by simp
  moreover have "leds (main_loop_body (bus_done [0x05, 0xDC])
        (GPIO_EVEN_IRQHandler (initial [0] [0, 0] 0))) = 3"
    using read_loop_decodes_big_endian [OF d0 h] by simp
  ultimately show ?thesis
    using d3 d0 g h by blast
qed

text \<open>
  Claim C6. \<^verbatim>\<open>writeMailbox\<close> puts \<^verbatim>\<open>sizeof(data)\<close>, the size of the pointer, in the
  length of the payload buffer, whatever array the pointer points to: for the one-byte
  payload 0x18 to MEASURE_MODE the descriptor asks for four bytes.
\<close>

theorem writeMailbox_length_from_pointer:
  "buf1 (writeMailbox_seq CCS811_ADDR_MEASURE_MODE [0x18]) = Some ([0x18], 4)
    \<and> length [0x18 :: u8] = 1
    \<and> xfers (snd (writeMailbox (bus_done []) CCS811_ADDR_MEASURE_MODE [0x18] (initial [0] [0, 0] 0)))
        = [\<lparr>addr = I2C_ADDRESS, flags = I2C_FLAG_WRITE_WRITE,
            buf0 = ([CCS811_ADDR_MEASURE_MODE], 1), buf1 = Some ([0x18], 4)\<rparr>]
    \<and> snd (the (buf1 (writeMailbox_seq id' data'))) = sizeof_uint8_ptr"
  by (simp add: writeMailbox_seq_def sizeof_uint8_ptr_def writeMailbox_def Let_def initial_def)

text \<open>
  Claim C10. A turn of the loop that finds the flag set starts one read of the algorithm
  result and leaves the flag clear, whatever the transfer returns, a failure included.
  Through any number of further turns woken by other interrupts only, there is no
  further read and the LEDs stay; a GPIO interrupt during the sleep sets the flag again.
\<close>

theorem flag_cleared_after_read_attempt:
  assumes "dataAvailable s" and "\<forall>w \<in> set ws. w = Other_IRQn"
  shows "\<not> dataAvailable (main_loop_body b s)
    \<and> xfers (main_loop_body b s)
        = xfers s @ [readMailbox_seq CCS811_ADDR_ALG_RESULT_DATA 2 (algresultData s)]
    \<and> \<not> dataAvailable (main_loop b (Other_IRQn # ws) s)
    \<and> xfers (main_loop b (Other_IRQn # ws) s) = xfers (main_loop_body b s)
    \<and> leds (main_loop b (Other_IRQn # ws) s) = leds (main_loop_body b s)
    \<and> dataAvailable (EMU_EnterEM3 GPIO_EVEN_IRQn (main_loop_body b s))
    \<and> dataAvailable (EMU_EnterEM3 GPIO_ODD_IRQn (main_loop_body b s))"
proof -
  have c: "\<not> dataAvailable (main_loop_body b s)"
    using assms(1) by (simp add: main_loop_body_ready Let_def)
  have x: "xfers (main_loop_body b s)
      = xfers s @ [readMailbox_seq CCS811_ADDR_ALG_RESULT_DATA 2 (algresultData s)]"
    using assms(1) by (simp add: main_loop_body_ready Let_def)
  have i: "irqEnabled (main_loop_body b s)"
    by (simp add: main_loop_body_def Let_def enableSensorInterrupts_def)
  have r: "main_loop b (Other_IRQn # ws) s
      = (if ws = [] then main_loop_body b s else (main_loop_body b s)\<lparr>irqEnabled := True\<rparr>)"
    using main_loop_idle [OF c assms(2), of b] by simp
  from c x i r show ?thesis
    by (simp add: GPIO_EVEN_IRQHandler_def GPIO_ODD_IRQHandler_def)
qed

theorem flag_cleared_after_read_attempt_witness:
  "dataAvailable (GPIO_EVEN_IRQHandler (initial [0] [0x03, 0x84] 0))
    \<and> fst (I2CSPM_Transfer (bus_fail_at 0 [] []) 0) = i2cTransferFailed
    \<and> \<not> dataAvailable (main_loop_body (bus_fail_at 0 [] [])
          (GPIO_EVEN_IRQHandler (initial [0] [0x03, 0x84] 0)))
    \<and> xfers (main_loop (bus_fail_at 0 [] []) [Other_IRQn, Other_IRQn, Other_IRQn]
          (GPIO_EVEN_IRQHandler (initial [0] [0x03, 0x84] 0)))
        = [readMailbox_seq CCS811_ADDR_ALG_RESULT_DATA 2 [0x03, 0x84]]"
proof -
  have d: "dataAvailable (GPIO_EVEN_IRQHandler (initial [0] [0x03, 0x84] 0))"
    by (simp add: GPIO_EVEN_IRQHandler_def)
  have o: "\<forall>w \<in> set [Other_IRQn, Other_IRQn]. w = Other_IRQn"
    by simp
  have f: "fst (I2CSPM_Transfer (bus_fail_at 0 [] []) 0) = i2cTransferFailed"
    by (simp add: bus_fail_at_def)
  from flag_cleared_after_read_attempt [OF d o, of "bus_fail_at 0 [] []"] d o f show ?thesis
    by (simp add: GPIO_EVEN_IRQHandler_def initial_def)
qed

end
